theory Spec2Isabelle
  imports Complex_Main
begin

section \<open>Python values\<close>

text \<open>
  The values \<^verbatim>\<open>json.load\<close> and \<^verbatim>\<open>response.json()\<close> produce: \<^verbatim>\<open>None\<close>, \<^verbatim>\<open>bool\<close>, \<^verbatim>\<open>int\<close>,
  \<^verbatim>\<open>float\<close>, \<^verbatim>\<open>str\<close>, \<^verbatim>\<open>list\<close> and \<^verbatim>\<open>dict\<close>. A float is an exact rational or one of the three
  non-finite values that Python's JSON reader accepts (\<^verbatim>\<open>Infinity\<close>, \<^verbatim>\<open>-Infinity\<close>, \<^verbatim>\<open>NaN\<close>);
  binary rounding and the range of a double are not modelled. A dict is the association
  list of its items, looked up with \<open>map_of\<close>.
\<close>

datatype pyfloat = Fin rat | PInf | NInf | NaN

datatype json =
    JNull
  | JBool bool
  | JInt int
  | JFloat pyfloat
  | JStr string
  | JArr "json list"
  | JObj "(string \<times> json) list"

text \<open>The exceptions the modelled code can meet. All of them derive from \<^verbatim>\<open>Exception\<close>.\<close>

datatype py_exn =
    FileNotFoundError
  | PermissionError
  | JSONDecodeError
  | AttributeError
  | TypeError
  | ValueError
  | OverflowError
  | AcquisitionError string

text \<open>Truth value of an object, as \<^verbatim>\<open>if info:\<close> and \<^verbatim>\<open>not info\<close> test it.\<close>

fun truthy :: "json \<Rightarrow> bool" where
  "truthy JNull = False"
| "truthy (JBool b) = b"
| "truthy (JInt i) = (i \<noteq> 0)"
| "truthy (JFloat x) = (x \<noteq> Fin 0)"
| "truthy (JStr s) = (s \<noteq> [])"
| "truthy (JArr xs) = (xs \<noteq> [])"
| "truthy (JObj kvs) = (kvs \<noteq> [])"

text \<open>\<^verbatim>\<open>obj.get(key, default)\<close>: only a dict has the method.\<close>

fun py_get :: "json \<Rightarrow> string \<Rightarrow> json \<Rightarrow> py_exn + json" where
  "py_get (JObj kvs) k d = Inr (case map_of kvs k of None \<Rightarrow> d | Some v \<Rightarrow> v)"
| "py_get _ k d = Inl AttributeError"

text \<open>The numeric operand of an arithmetic operation: \<^verbatim>\<open>bool\<close> is a subclass of \<^verbatim>\<open>int\<close>.\<close>

fun as_float :: "json \<Rightarrow> pyfloat option" where
  "as_float (JInt i) = Some (Fin (of_int i))"
| "as_float (JFloat x) = Some x"
| "as_float (JBool b) = Some (Fin (if b then 1 else 0))"
| "as_float _ = None"

text \<open>\<^verbatim>\<open>x - t\<close> for a finite float \<open>t\<close>.\<close>

fun fsub :: "pyfloat \<Rightarrow> rat \<Rightarrow> pyfloat" where
  "fsub (Fin a) t = Fin (a - t)"
| "fsub PInf t = PInf"
| "fsub NInf t = NInf"
| "fsub NaN t = NaN"

text \<open>\<^verbatim>\<open>v - t\<close> for any value \<open>v\<close>: a non-numeric left operand raises \<^verbatim>\<open>TypeError\<close>.\<close>

definition py_sub :: "json \<Rightarrow> rat \<Rightarrow> py_exn + pyfloat" where
  "py_sub v t = (case as_float v of None \<Rightarrow> Inl TypeError | Some x \<Rightarrow> Inr (fsub x t))"

text \<open>\<^verbatim>\<open>x > n\<close> for an integer \<open>n\<close>: every comparison with \<^verbatim>\<open>NaN\<close> is false.\<close>

fun fgt :: "pyfloat \<Rightarrow> int \<Rightarrow> bool" where
  "fgt (Fin a) n = (of_int n < a)"
| "fgt PInf n = True"
| "fgt NInf n = False"
| "fgt NaN n = False"

text \<open>\<^verbatim>\<open>int(x)\<close> truncates towards zero and raises on a non-finite argument.\<close>

definition trunc :: "rat \<Rightarrow> int" where
  "trunc a = (if 0 \<le> a then \<lfloor>a\<rfloor> else \<lceil>a\<rceil>)"

fun py_int :: "pyfloat \<Rightarrow> py_exn + int" where
  "py_int (Fin a) = Inr (trunc a)"
| "py_int PInf = Inl OverflowError"
| "py_int NInf = Inl OverflowError"
| "py_int NaN = Inl ValueError"

section \<open>The Copilot token manager\<close>

text \<open>
  What the manager sees of the outside: the file at \<^verbatim>\<open>api_key_file\<close> and the value of
  \<^verbatim>\<open>datetime.now().timestamp()\<close>. The file is missing, unreadable, not JSON, or holds
  the text of a JSON value.
\<close>

datatype file_state = NoFile | Unreadable | Malformed | Content json

record world =
  api_key_file :: file_state
  clock :: rat

text \<open>\<^verbatim>\<open>with open(self.api_key_file) as f: json.load(f)\<close>\<close>

fun load_json :: "file_state \<Rightarrow> py_exn + json" where
  "load_json NoFile = Inl FileNotFoundError"
| "load_json Unreadable = Inl PermissionError"
| "load_json Malformed = Inl JSONDecodeError"
| "load_json (Content j) = Inr j"

definition REFRESH_THRESHOLD_SECONDS :: int where
  "REFRESH_THRESHOLD_SECONDS = 300"

text \<open>The body of the \<^verbatim>\<open>try\<close> block of \<^verbatim>\<open>is_token_usable\<close>.\<close>

definition is_token_usable_try :: "world \<Rightarrow> py_exn + bool" where
  "is_token_usable_try w =
     (case load_json (api_key_file w) of
        Inl e \<Rightarrow> Inl e
      | Inr data \<Rightarrow>
          (case py_get data ''expires_at'' (JInt 0) of
             Inl e \<Rightarrow> Inl e
           | Inr expires_at \<Rightarrow>
               (case py_sub expires_at (clock w) of
                  Inl e \<Rightarrow> Inl e
                | Inr d \<Rightarrow> Inr (fgt d REFRESH_THRESHOLD_SECONDS))))"

text \<open>\<^verbatim>\<open>except Exception: return False\<close>\<close>

definition is_token_usable :: "world \<Rightarrow> py_exn + bool" where
  "is_token_usable w =
     (case is_token_usable_try w of Inl e \<Rightarrow> Inr False | Inr b \<Rightarrow> Inr b)"

text \<open>\<^verbatim>\<open>get_token_info\<close>: the loaded value, or \<^verbatim>\<open>None\<close> (here \<open>JNull\<close>) on any exception.\<close>

definition get_token_info :: "world \<Rightarrow> py_exn + json" where
  "get_token_info w =
     (case load_json (api_key_file w) of Inl e \<Rightarrow> Inr JNull | Inr data \<Rightarrow> Inr data)"

text \<open>
  The wrapped \<^verbatim>\<open>Authenticator\<close> is external: \<^verbatim>\<open>get_api_key()\<close> is a parameter, a function
  from the world to its outcome (a token or an exception) and the world it leaves. The
  manager's state pairs the world with a count of the calls made to it. Execution is
  sequential: within one operation nothing else changes the file, so the two reads of
  \<^verbatim>\<open>ensure_valid_token\<close> see the same content.
\<close>

type_synonym authenticator = "world \<Rightarrow> (py_exn + string) \<times> world"

record state =
  env :: world
  auth_calls :: nat

definition get_api_key :: "authenticator \<Rightarrow> state \<Rightarrow> (py_exn + json) \<times> state" where
  "get_api_key auth s =
     (case auth (env s) of
        (r, w') \<Rightarrow>
          (case r of Inl e \<Rightarrow> Inl e | Inr tok \<Rightarrow> Inr (JStr tok),
           \<lparr>env = w', auth_calls = Suc (auth_calls s)\<rparr>))"

definition ensure_valid_token :: "authenticator \<Rightarrow> state \<Rightarrow> (py_exn + json) \<times> state" where
  "ensure_valid_token auth s =
     (case is_token_usable (env s) of
        Inl e \<Rightarrow> (Inl e, s)
      | Inr usable \<Rightarrow>
          if usable then
            (case get_token_info (env s) of
               Inl e \<Rightarrow> (Inl e, s)
             | Inr info \<Rightarrow>
                 if truthy info then
                   (case py_get info ''token'' (JStr '''') of
                      Inl e \<Rightarrow> (Inl e, s)
                    | Inr t \<Rightarrow> (Inr t, s))
                 else get_api_key auth s)
          else get_api_key auth s)"

definition needs_refresh :: "world \<Rightarrow> py_exn + (bool \<times> int)" where
  "needs_refresh w =
     (case get_token_info w of
        Inl e \<Rightarrow> Inl e
      | Inr info \<Rightarrow>
          if \<not> truthy info then Inr (True, 0)
          else
            (case py_get info ''expires_at'' (JInt 0) of
               Inl e \<Rightarrow> Inl e
             | Inr expires_at \<Rightarrow>
                 (case py_sub expires_at (clock w) of
                    Inl e \<Rightarrow> Inl e
                  | Inr d \<Rightarrow>
                      (case py_int d of
                         Inl e \<Rightarrow> Inl e
                       | Inr seconds_left \<Rightarrow>
                           Inr (seconds_left \<le> REFRESH_THRESHOLD_SECONDS, seconds_left)))))"

definition refresh :: "authenticator \<Rightarrow> state \<Rightarrow> (py_exn + json) \<times> state" where
  "refresh auth s = get_api_key auth s"

section \<open>The singleton accessor\<close>





section \<open>The SearXNG search tool\<close>

text \<open>
  \<^verbatim>\<open>call_tool\<close> of the search server. The arguments are a dict of JSON values. What lies
  outside the function is a parameter: the formatting of a non-string value in an
  f-string, the text of an exception, and the outcome of the block that sends the request,
  checks the status and decodes the body (an \<^verbatim>\<open>httpx.HTTPError\<close> with its text, any other
  exception, or the decoded JSON). A string is a list of characters; a character of the
  model stands for a character of the Python string.
\<close>

datatype http_outcome = HTTPError string | Failure py_exn | Response json

record runtime =
  format_value :: "json \<Rightarrow> string"
  exn_text :: "py_exn \<Rightarrow> string"
  http_get :: "json \<Rightarrow> http_outcome"

datatype TextContent = TextContent (ctype: string) (ctext: string)

text \<open>\<^verbatim>\<open>arguments.get(key, default)\<close> on the dict of arguments.\<close>

definition dict_get :: "(string \<times> json) list \<Rightarrow> string \<Rightarrow> json \<Rightarrow> json" where
  "dict_get kvs k d = (case map_of kvs k of None \<Rightarrow> d | Some v \<Rightarrow> v)"

text \<open>\<^verbatim>\<open>x < n\<close> for an integer \<open>n\<close>.\<close>

fun flt :: "pyfloat \<Rightarrow> int \<Rightarrow> bool" where
  "flt (Fin a) n = (a < of_int n)"
| "flt PInf n = False"
| "flt NInf n = True"
| "flt NaN n = False"

text \<open>
  \<^verbatim>\<open>max(a, n)\<close> and \<^verbatim>\<open>min(a, n)\<close> with an integer \<open>n\<close> as second argument: the first argument
  is kept unless \<^verbatim>\<open>n > a\<close> (for \<^verbatim>\<open>max\<close>) or \<^verbatim>\<open>n < a\<close> (for \<^verbatim>\<open>min\<close>) holds, and comparing an
  integer with a value that is not a number raises \<^verbatim>\<open>TypeError\<close>.
\<close>

definition py_max :: "json \<Rightarrow> int \<Rightarrow> py_exn + json" where
  "py_max a n =
     (case as_float a of
        None \<Rightarrow> Inl TypeError
      | Some x \<Rightarrow> Inr (if flt x n then JInt n else a))"

definition py_min :: "json \<Rightarrow> int \<Rightarrow> py_exn + json" where
  "py_min a n =
     (case as_float a of
        None \<Rightarrow> Inl TypeError
      | Some x \<Rightarrow> Inr (if fgt x n then JInt n else a))"

text \<open>
  \<^verbatim>\<open>x[:n]\<close>. The bound is an integer (a \<^verbatim>\<open>bool\<close> is one) or \<^verbatim>\<open>None\<close>; a negative bound counts
  from the end. Only a list or a string is sliced here: on any other value the
  subscription raises.
\<close>

fun slice_upto :: "'a list \<Rightarrow> json \<Rightarrow> py_exn + 'a list" where
  "slice_upto xs (JInt n) =
     Inr (if 0 \<le> n then take (nat n) xs else take (length xs - nat (- n)) xs)"
| "slice_upto xs (JBool b) = Inr (take (if b then 1 else 0) xs)"
| "slice_upto xs JNull = Inr xs"
| "slice_upto xs _ = Inl TypeError"

fun py_slice :: "json \<Rightarrow> json \<Rightarrow> py_exn + json" where
  "py_slice (JArr xs) n = (case slice_upto xs n of Inl e \<Rightarrow> Inl e | Inr ys \<Rightarrow> Inr (JArr ys))"
| "py_slice (JStr s) n = (case slice_upto s n of Inl e \<Rightarrow> Inl e | Inr t \<Rightarrow> Inr (JStr t))"
| "py_slice _ n = Inl TypeError"

text \<open>The items a \<^verbatim>\<open>for\<close> loop draws from a list or a string.\<close>

fun py_iter :: "json \<Rightarrow> py_exn + json list" where
  "py_iter (JArr xs) = Inr xs"
| "py_iter (JStr s) = Inr (map (\<lambda>c. JStr [c]) s)"
| "py_iter (JObj kvs) = Inr (map (\<lambda>kv. JStr (fst kv)) kvs)"
| "py_iter _ = Inl TypeError"

text \<open>A value inside an f-string: a string stands for itself.\<close>

definition py_str :: "runtime \<Rightarrow> json \<Rightarrow> string" where
  "py_str rt v = (case v of JStr s \<Rightarrow> s | _ \<Rightarrow> format_value rt v)"

text \<open>The decimal digits of the loop index.\<close>

fun str_nat :: "nat \<Rightarrow> string" where
  "str_nat n =
     (if n < 10 then [char_of (48 + n)] else str_nat (n div 10) @ [char_of (48 + n mod 10)])"

text \<open>\<^verbatim>\<open>"\n".join(lines)\<close>\<close>

fun join_lines :: "string list \<Rightarrow> string" where
  "join_lines [] = []"
| "join_lines [l] = l"
| "join_lines (l # ls) = l @ CHR 0x0A # join_lines ls"

text \<open>The lines one pass of the loop body appends, for the item \<open>item\<close> numbered \<open>i\<close>.\<close>

definition format_item :: "runtime \<Rightarrow> nat \<Rightarrow> json \<Rightarrow> py_exn + string list" where
  "format_item rt i item =
     (case py_get item ''title'' (JStr ''No title'') of
        Inl e \<Rightarrow> Inl e
      | Inr title \<Rightarrow>
          (case py_get item ''url'' (JStr '''') of
             Inl e \<Rightarrow> Inl e
           | Inr url \<Rightarrow>
               (case py_get item ''content'' (JStr '''') of
                  Inl e \<Rightarrow> Inl e
                | Inr snippet \<Rightarrow>
                    if truthy snippet then
                      (case py_slice snippet (JInt 200) of
                         Inl e \<Rightarrow> Inl e
                       | Inr snip \<Rightarrow>
                           Inr [str_nat i @ ''. '' @ py_str rt title,
                                ''   '' @ py_str rt url,
                                ''   '' @ py_str rt snip,
                                ''''])
                    else
                      Inr [str_nat i @ ''. '' @ py_str rt title,
                           ''   '' @ py_str rt url,
                           ''''])))"

text \<open>The loop over \<^verbatim>\<open>enumerate(results, 1)\<close>: one group of lines for each item.\<close>

fun format_items :: "runtime \<Rightarrow> nat \<Rightarrow> json list \<Rightarrow> py_exn + string list list" where
  "format_items rt i [] = Inr []"
| "format_items rt i (item # items) =
     (case format_item rt i item of
        Inl e \<Rightarrow> Inl e
      | Inr g \<Rightarrow>
          (case format_items rt (Suc i) items of
             Inl e \<Rightarrow> Inl e
           | Inr gs \<Rightarrow> Inr (g # gs)))"

text \<open>\<^verbatim>\<open>min(max(arguments.get("count", 5), 1), 10)\<close>\<close>

definition clamp_count :: "(string \<times> json) list \<Rightarrow> py_exn + json" where
  "clamp_count arguments =
     (case py_max (dict_get arguments ''count'' (JInt 5)) 1 of
        Inl e \<Rightarrow> Inl e
      | Inr m \<Rightarrow> py_min m 10)"

text \<open>
  The body of the \<^verbatim>\<open>try\<close> block together with the handler for \<^verbatim>\<open>httpx.HTTPError\<close>, which
  only the request block can raise. \<open>Inl\<close> is any other exception.
\<close>

definition call_tool_try :: "runtime \<Rightarrow> json \<Rightarrow> json \<Rightarrow> py_exn + TextContent list" where
  "call_tool_try rt query count =
     (case http_get rt query of
        HTTPError msg \<Rightarrow> Inr [TextContent ''text'' (''HTTP error: '' @ msg)]
      | Failure e \<Rightarrow> Inl e
      | Response data \<Rightarrow>
          (case py_get data ''results'' (JArr []) of
             Inl e \<Rightarrow> Inl e
           | Inr found \<Rightarrow>
               (case py_slice found count of
                  Inl e \<Rightarrow> Inl e
                | Inr results \<Rightarrow>
                    if \<not> truthy results then
                      Inr [TextContent ''text'' (''No results for: '' @ py_str rt query)]
                    else
                      (case py_iter results of
                         Inl e \<Rightarrow> Inl e
                       | Inr items \<Rightarrow>
                           (case format_items rt 1 items of
                              Inl e \<Rightarrow> Inl e
                            | Inr groups \<Rightarrow>
                                Inr [TextContent ''text''
                                      (join_lines
                                         ((''Results for: '' @ py_str rt query @ [CHR 0x0A])
                                          # concat groups))])))))"

definition call_tool ::
    "runtime \<Rightarrow> string \<Rightarrow> (string \<times> json) list \<Rightarrow> py_exn + TextContent list" where
  "call_tool rt name arguments =
     (if name \<noteq> ''web_search'' then Inr [TextContent ''text'' (''Unknown tool: '' @ name)]
      else
        (case clamp_count arguments of
           Inl e \<Rightarrow> Inl e
         | Inr count \<Rightarrow>
             if \<not> truthy (dict_get arguments ''query'' (JStr '''')) then
               Inr [TextContent ''text'' ''Error: query is required'']
             else
               (case call_tool_try rt (dict_get arguments ''query'' (JStr '''')) count of
                  Inl e \<Rightarrow> Inr [TextContent ''text'' (''Error: '' @ exn_text rt e)]
                | Inr r \<Rightarrow> Inr r)))"

text \<open>
  A runtime for evaluating \<open>call_tool\<close> on concrete calls: the search service answers every
  query with three results.
\<close>

definition sample_runtime :: runtime where
  "sample_runtime =
     \<lparr>format_value = (\<lambda>v. ''<value>''),
      exn_text = (\<lambda>e. ''<exception>''),
      http_get = (\<lambda>q. Response (JObj [(''results'',
         JArr [JObj [(''title'', JStr ''A''), (''url'', JStr ''http://a'')],
               JObj [(''title'', JStr ''B''), (''content'', JStr ''about b'')],
               JObj [(''url'', JStr ''http://c'')]])]))\<rparr>"

section \<open>Properties of the token manager\<close>

lemma is_token_usable_cases: "is_token_usable w = Inr True \<or> is_token_usable w = Inr False"
  by (auto simp: is_token_usable_def split: sum.splits)

lemma is_token_usable_True_iff:
  "is_token_usable w = Inr True \<longleftrightarrow>
     (\<exists>d x. api_key_file w = Content (JObj d)
        \<and> as_float (case map_of d ''expires_at'' of None \<Rightarrow> JInt 0 | Some v \<Rightarrow> v) = Some x
        \<and> fgt (fsub x (clock w)) REFRESH_THRESHOLD_SECONDS)"
proof (cases "api_key_file w")
  case (Content j)
  then show ?thesis
    by (cases j) (auto simp: is_token_usable_def is_token_usable_try_def py_sub_def split: sum.splits option.splits)
qed (simp_all add: is_token_usable_def is_token_usable_try_def)



lemma get_token_info_total: "\<exists>j. get_token_info w = Inr j"
  by (simp add: get_token_info_def split: sum.splits)







lemma usable_record:
  assumes "is_token_usable w = Inr True"
  shows "\<exists>d. api_key_file w = Content (JObj d) \<and> get_token_info w = Inr (JObj d)"
proof -
  from assms obtain d where "api_key_file w = Content (JObj d)"
    unfolding is_token_usable_True_iff by blast
  then show ?thesis by (simp add: get_token_info_def)
qed

text \<open>
  Claim C3. When \<^verbatim>\<open>is_token_usable\<close> returns \<^verbatim>\<open>True\<close> and \<^verbatim>\<open>get_token_info\<close> gives a record
  (a true value, as \<^verbatim>\<open>if info:\<close> tests), the record is a JSON object, and
  \<^verbatim>\<open>ensure_valid_token\<close> returns its \<^verbatim>\<open>token\<close> field and leaves the state as it was: the
  authenticator is not called.
\<close>

theorem ensure_valid_token_usable:
  assumes "is_token_usable (env s) = Inr True"
    and "get_token_info (env s) = Inr info"
    and "truthy info"
  shows "\<exists>d. info = JObj d
           \<and> ensure_valid_token auth s
               = (Inr (case map_of d ''token'' of None \<Rightarrow> JStr '''' | Some t \<Rightarrow> t), s)
           \<and> auth_calls (snd (ensure_valid_token auth s)) = auth_calls s"
proof -
  from usable_record [OF assms(1)] assms(2) obtain d where d: "info = JObj d"
    by auto
  with assms show ?thesis
    by (simp add: ensure_valid_token_def)
qed

theorem ensure_valid_token_usable_witness:
  "ensure_valid_token (\<lambda>w. (Inr ''fresh'', w))
     \<lparr>env = \<lparr>api_key_file = Content (JObj [(''token'', JStr ''abc''), (''expires_at'', JInt 2000)]),
              clock = 1000\<rparr>,
      auth_calls = 0\<rparr>
   = (Inr (JStr ''abc''),
      \<lparr>env = \<lparr>api_key_file = Content (JObj [(''token'', JStr ''abc''), (''expires_at'', JInt 2000)]),
               clock = 1000\<rparr>,
       auth_calls = 0\<rparr>)"
proof -
  let ?d = "[(''token'', JStr ''abc''), (''expires_at'', JInt 2000)]"
  let ?s = "\<lparr>env = \<lparr>api_key_file = Content (JObj ?d), clock = 1000\<rparr>, auth_calls = 0\<rparr>"
  have u: "is_token_usable (env ?s) = Inr True"
    by (simp add: is_token_usable_def is_token_usable_try_def py_sub_def REFRESH_THRESHOLD_SECONDS_def)
  have i: "get_token_info (env ?s) = Inr (JObj ?d)"
    by (simp add: get_token_info_def)
  have t: "truthy (JObj ?d)"
    by simp
  from ensure_valid_token_usable [OF u i t, of "\<lambda>w. (Inr ''fresh'', w)"]
  show ?thesis by simp
qed

text \<open>
  Claim C4. When the record is absent or not usable, \<^verbatim>\<open>ensure_valid_token\<close> is one call of
  the authenticator's \<^verbatim>\<open>get_api_key\<close>: the call count grows by one and the result is the
  authenticator's.
\<close>

theorem ensure_valid_token_refreshes:
  assumes "is_token_usable (env s) = Inr False \<or> get_token_info (env s) = Inr JNull"
  shows "ensure_valid_token auth s = get_api_key auth s
         \<and> auth_calls (snd (ensure_valid_token auth s)) = Suc (auth_calls s)
         \<and> fst (ensure_valid_token auth s)
             = (case fst (auth (env s)) of Inl e \<Rightarrow> Inl e | Inr tok \<Rightarrow> Inr (JStr tok))"
proof -
  have call: "ensure_valid_token auth s = get_api_key auth s"
  proof (cases "is_token_usable (env s) = Inr True")
    case True
    with assms have "get_token_info (env s) = Inr JNull" by simp
    with True show ?thesis by (simp add: ensure_valid_token_def)
  next
    case False
    with is_token_usable_cases [of "env s"] have "is_token_usable (env s) = Inr False" by simp
    then show ?thesis by (simp add: ensure_valid_token_def)
  qed
  then show ?thesis
    by (simp add: get_api_key_def split: prod.splits)
qed

theorem ensure_valid_token_refreshes_witness:
  "ensure_valid_token (\<lambda>w. (Inr ''fresh'', w\<lparr>api_key_file := Content (JObj [(''token'', JStr ''fresh'')])\<rparr>))
     \<lparr>env = \<lparr>api_key_file = Content (JObj [(''token'', JStr ''abc''), (''expires_at'', JInt 1100)]),
              clock = 1000\<rparr>,
      auth_calls = 0\<rparr>
   = (Inr (JStr ''fresh''),
      \<lparr>env = \<lparr>api_key_file = Content (JObj [(''token'', JStr ''fresh'')]), clock = 1000\<rparr>,
       auth_calls = 1\<rparr>)"
proof -
  let ?d = "[(''token'', JStr ''abc''), (''expires_at'', JInt 1100)]"
  let ?s = "\<lparr>env = \<lparr>api_key_file = Content (JObj ?d), clock = 1000\<rparr>, auth_calls = 0\<rparr>"
  have u: "is_token_usable (env ?s) = Inr False \<or> get_token_info (env ?s) = Inr JNull"
    by (simp add: is_token_usable_def is_token_usable_try_def py_sub_def REFRESH_THRESHOLD_SECONDS_def)
  from ensure_valid_token_refreshes [OF u, THEN conjunct1]
  show ?thesis by (simp add: get_api_key_def)
qed

lemma get_api_key_fst:
  "fst (get_api_key auth s)
     = (case fst (auth (env s)) of Inl e \<Rightarrow> Inl e | Inr tok \<Rightarrow> Inr (JStr tok))"
  by (simp add: get_api_key_def split: prod.splits)

lemma get_api_key_raises_iff:
  "fst (get_api_key auth s) = Inl e \<longleftrightarrow> fst (auth (env s)) = Inl e"
  by (simp add: get_api_key_fst split: sum.splits)

lemma ensure_valid_token_cases:
  "(\<exists>t. ensure_valid_token auth s = (Inr t, s)) \<or> ensure_valid_token auth s = get_api_key auth s"
proof (cases "is_token_usable (env s) = Inr True")
  case True
  from usable_record [OF True] obtain d where "get_token_info (env s) = Inr (JObj d)"
    by blast
  with True show ?thesis
    by (simp add: ensure_valid_token_def)
next
  case False
  with is_token_usable_cases [of "env s"] have "is_token_usable (env s) = Inr False" by simp
  then show ?thesis by (simp add: ensure_valid_token_def)
qed

text \<open>
  Claim C5. An exception raised by the authenticator's \<^verbatim>\<open>get_api_key\<close> comes out of
  \<^verbatim>\<open>ensure_valid_token\<close> and \<^verbatim>\<open>refresh\<close> unchanged, and it is the only error the manager
  lets out. The code breaks the last part. \<^verbatim>\<open>needs_refresh\<close> repeats the \<^verbatim>\<open>.get\<close> and the
  subtraction of \<^verbatim>\<open>is_token_usable\<close> without its \<^verbatim>\<open>try\<close>: when the file holds a JSON array it
  raises \<^verbatim>\<open>AttributeError\<close>, and when \<^verbatim>\<open>expires_at\<close> is a string it raises \<^verbatim>\<open>TypeError\<close>, where
  \<^verbatim>\<open>is_token_usable\<close> returns \<^verbatim>\<open>False\<close> on the same files.
\<close>

theorem needs_refresh_raises_on_malformed_record:
  "needs_refresh \<lparr>api_key_file = Content (JArr [JInt 1]), clock = 1000\<rparr> = Inl AttributeError
   \<and> is_token_usable \<lparr>api_key_file = Content (JArr [JInt 1]), clock = 1000\<rparr> = Inr False
   \<and> needs_refresh \<lparr>api_key_file = Content (JObj [(''expires_at'', JStr ''soon'')]), clock = 1000\<rparr>
       = Inl TypeError
   \<and> is_token_usable \<lparr>api_key_file = Content (JObj [(''expires_at'', JStr ''soon'')]), clock = 1000\<rparr>
       = Inr False"
  by (simp add: needs_refresh_def get_token_info_def py_sub_def
        is_token_usable_def is_token_usable_try_def)

text \<open>
  The part of claim C5 about the two operations that call the authenticator holds. An
  exception raised by \<^verbatim>\<open>get_api_key\<close> comes out of \<^verbatim>\<open>refresh\<close>, and out of
  \<^verbatim>\<open>ensure_valid_token\<close> whenever the token is not usable, unchanged; and these two
  operations raise nothing else: whatever they raise, the authenticator raised.
\<close>

theorem acquisition_error_propagates:
  "(fst (auth (env s)) = Inl e \<longrightarrow> fst (refresh auth s) = Inl e)
   \<and> (fst (auth (env s)) = Inl e \<and> is_token_usable (env s) = Inr False
        \<longrightarrow> fst (ensure_valid_token auth s) = Inl e)
   \<and> (fst (refresh auth s) = Inl e \<longrightarrow> fst (auth (env s)) = Inl e)
   \<and> (fst (ensure_valid_token auth s) = Inl e \<longrightarrow> fst (auth (env s)) = Inl e)"
proof (intro conjI impI)
  assume "fst (auth (env s)) = Inl e"
  then show "fst (refresh auth s) = Inl e"
    by (simp add: refresh_def get_api_key_raises_iff)
next
  assume "fst (auth (env s)) = Inl e \<and> is_token_usable (env s) = Inr False"
  then show "fst (ensure_valid_token auth s) = Inl e"
    by (simp add: ensure_valid_token_def get_api_key_raises_iff)
next
  assume "fst (refresh auth s) = Inl e"
  then show "fst (auth (env s)) = Inl e"
    by (simp add: refresh_def get_api_key_raises_iff)
next
  assume r: "fst (ensure_valid_token auth s) = Inl e"
  from ensure_valid_token_cases [of auth s] r
  have "fst (get_api_key auth s) = Inl e" by auto
  then show "fst (auth (env s)) = Inl e"
    by (simp add: get_api_key_raises_iff)
qed

theorem acquisition_error_propagates_witness:
  "fst (refresh (\<lambda>w. (Inl (AcquisitionError ''auth rejected''), w))
          \<lparr>env = \<lparr>api_key_file = NoFile, clock = 1000\<rparr>, auth_calls = 0\<rparr>)
     = Inl (AcquisitionError ''auth rejected'')
   \<and> fst (ensure_valid_token (\<lambda>w. (Inl (AcquisitionError ''auth rejected''), w))
          \<lparr>env = \<lparr>api_key_file = NoFile, clock = 1000\<rparr>, auth_calls = 0\<rparr>)
     = Inl (AcquisitionError ''auth rejected'')"
proof -
  let ?auth = "\<lambda>w :: world. (Inl (AcquisitionError ''auth rejected'') :: py_exn + string, w)"
  let ?s = "\<lparr>env = \<lparr>api_key_file = NoFile, clock = 1000\<rparr>, auth_calls = 0\<rparr>"
  have a: "fst (?auth (env ?s)) = Inl (AcquisitionError ''auth rejected'')"
    by simp
  have u: "is_token_usable (env ?s) = Inr False"
    by (simp add: is_token_usable_def is_token_usable_try_def)
  have r1: "fst (refresh ?auth ?s) = Inl (AcquisitionError ''auth rejected'')"
    by (rule acquisition_error_propagates [THEN conjunct1, THEN mp]) (rule a)
  have r2: "fst (ensure_valid_token ?auth ?s) = Inl (AcquisitionError ''auth rejected'')"
    by (rule acquisition_error_propagates [THEN conjunct2, THEN conjunct1, THEN mp])
       (intro conjI a u)
  from acquisition_error_propagates [of ?auth ?s "AcquisitionError ''auth rejected''",
      THEN conjunct2, THEN conjunct2, THEN conjunct1, THEN mp, OF r1]
  have b1: "fst (?auth (env ?s)) = Inl (AcquisitionError ''auth rejected'')" .
  from acquisition_error_propagates [of ?auth ?s "AcquisitionError ''auth rejected''",
      THEN conjunct2, THEN conjunct2, THEN conjunct2, THEN mp, OF r2]
  have b2: "fst (?auth (env ?s)) = Inl (AcquisitionError ''auth rejected'')" .
  from r1 r2 show ?thesis by (intro conjI)
qed

theorem get_token_info_missing_key_counterexample:
  "load_json (Content (JObj [(''token'', JStr ''abc'')])) = Inr (JObj [(''token'', JStr ''abc'')])
   \<and> map_of [(''token'', JStr ''abc'')] ''expires_at'' = None
   \<and> get_token_info \<lparr>api_key_file = Content (JObj [(''token'', JStr ''abc'')]), clock = 1000\<rparr>
       \<noteq> Inr JNull"
  by (simp add: get_token_info_def)

text \<open>
  Claim C6, as the code has it. Neither \<^verbatim>\<open>is_token_usable\<close> nor \<^verbatim>\<open>get_token_info\<close> raises, in
  any world. When reading or parsing the file fails (missing, unreadable, not JSON),
  \<^verbatim>\<open>is_token_usable\<close> returns \<^verbatim>\<open>False\<close> and \<^verbatim>\<open>get_token_info\<close> returns \<^verbatim>\<open>None\<close>. A JSON object
  without the key \<^verbatim>\<open>expires_at\<close> is not a failed read: \<^verbatim>\<open>get_token_info\<close> returns the object,
  and \<^verbatim>\<open>is_token_usable\<close> returns \<^verbatim>\<open>False\<close> for \<^verbatim>\<open>now \<ge> 0\<close>.
\<close>

theorem read_failures_absorbed:
  "(\<exists>b. is_token_usable w = Inr b)
   \<and> (\<exists>j. get_token_info w = Inr j)
   \<and> (load_json (api_key_file w) = Inl e
        \<longrightarrow> is_token_usable w = Inr False \<and> get_token_info w = Inr JNull)
   \<and> (0 \<le> clock w \<and> api_key_file w = Content (JObj d) \<and> map_of d ''expires_at'' = None
        \<longrightarrow> is_token_usable w = Inr False \<and> get_token_info w = Inr (JObj d))"
proof (intro conjI impI)
  show "\<exists>b. is_token_usable w = Inr b"
    using is_token_usable_cases [of w] by blast
  show "\<exists>j. get_token_info w = Inr j"
    by (rule get_token_info_total)
next
  assume "load_json (api_key_file w) = Inl e"
  then show "is_token_usable w = Inr False" and "get_token_info w = Inr JNull"
    by (simp_all add: is_token_usable_def is_token_usable_try_def get_token_info_def)
next
  assume h: "0 \<le> clock w \<and> api_key_file w = Content (JObj d) \<and> map_of d ''expires_at'' = None"
  then show "is_token_usable w = Inr False"
    by (simp add: is_token_usable_def is_token_usable_try_def py_sub_def
          REFRESH_THRESHOLD_SECONDS_def)
  from h show "get_token_info w = Inr (JObj d)"
    by (simp add: get_token_info_def)
qed

theorem read_failures_absorbed_witness:
  "is_token_usable \<lparr>api_key_file = NoFile, clock = 1000\<rparr> = Inr False
   \<and> get_token_info \<lparr>api_key_file = NoFile, clock = 1000\<rparr> = Inr JNull
   \<and> is_token_usable \<lparr>api_key_file = Malformed, clock = 1000\<rparr> = Inr False
   \<and> get_token_info \<lparr>api_key_file = Malformed, clock = 1000\<rparr> = Inr JNull
   \<and> is_token_usable \<lparr>api_key_file = Content (JObj [(''token'', JStr ''abc'')]), clock = 1000\<rparr>
       = Inr False
   \<and> get_token_info \<lparr>api_key_file = Content (JObj [(''token'', JStr ''abc'')]), clock = 1000\<rparr>
       = Inr (JObj [(''token'', JStr ''abc'')])"
proof -
  have a: "is_token_usable \<lparr>api_key_file = NoFile, clock = 1000\<rparr> = Inr False
           \<and> get_token_info \<lparr>api_key_file = NoFile, clock = 1000\<rparr> = Inr JNull"
    by (rule read_failures_absorbed [where e = FileNotFoundError,
          THEN conjunct2, THEN conjunct2, THEN conjunct1, THEN mp]) simp
  have b: "is_token_usable \<lparr>api_key_file = Malformed, clock = 1000\<rparr> = Inr False
           \<and> get_token_info \<lparr>api_key_file = Malformed, clock = 1000\<rparr> = Inr JNull"
    by (rule read_failures_absorbed [where e = JSONDecodeError,
          THEN conjunct2, THEN conjunct2, THEN conjunct1, THEN mp]) simp
  have c: "is_token_usable \<lparr>api_key_file = Content (JObj [(''token'', JStr ''abc'')]), clock = 1000\<rparr>
             = Inr False
           \<and> get_token_info \<lparr>api_key_file = Content (JObj [(''token'', JStr ''abc'')]), clock = 1000\<rparr>
             = Inr (JObj [(''token'', JStr ''abc'')])"
    by (rule read_failures_absorbed [where d = "[(''token'', JStr ''abc'')]",
          THEN conjunct2, THEN conjunct2, THEN conjunct2, THEN mp]) simp
  from a b c show ?thesis by blast
qed

lemma get_api_key_calls: "auth_calls (snd (get_api_key auth s)) = Suc (auth_calls s)"
  by (simp add: get_api_key_def split: prod.splits)

lemma get_api_key_env: "env (snd (get_api_key auth s)) = snd (auth (env s))"
  by (simp add: get_api_key_def split: prod.splits)

text \<open>
  Claim C7. In every state, usable record or not, \<^verbatim>\<open>refresh\<close> is one call of the
  authenticator's \<^verbatim>\<open>get_api_key\<close>: the call count grows by one, the world is the one the
  authenticator leaves, and the result is the authenticator's token.
\<close>

theorem refresh_always_calls:
  "refresh auth s = get_api_key auth s
   \<and> auth_calls (snd (refresh auth s)) = Suc (auth_calls s)
   \<and> env (snd (refresh auth s)) = snd (auth (env s))
   \<and> fst (refresh auth s)
       = (case fst (auth (env s)) of Inl e \<Rightarrow> Inl e | Inr tok \<Rightarrow> Inr (JStr tok))"
  by (simp add: refresh_def get_api_key_calls get_api_key_env get_api_key_fst)

theorem refresh_always_calls_witness:
  "is_token_usable \<lparr>api_key_file = Content (JObj [(''token'', JStr ''abc''), (''expires_at'', JInt 2000)]),
                     clock = 1000\<rparr> = Inr True
   \<and> refresh (\<lambda>w. (Inr ''fresh'', w))
        \<lparr>env = \<lparr>api_key_file = Content (JObj [(''token'', JStr ''abc''), (''expires_at'', JInt 2000)]),
                 clock = 1000\<rparr>,
         auth_calls = 0\<rparr>
      = (Inr (JStr ''fresh''),
         \<lparr>env = \<lparr>api_key_file = Content (JObj [(''token'', JStr ''abc''), (''expires_at'', JInt 2000)]),
                  clock = 1000\<rparr>,
          auth_calls = 1\<rparr>)"
proof -
  let ?w = "\<lparr>api_key_file = Content (JObj [(''token'', JStr ''abc''), (''expires_at'', JInt 2000)]),
             clock = 1000\<rparr>"
  have u: "is_token_usable ?w = Inr True"
    by (simp add: is_token_usable_def is_token_usable_try_def py_sub_def REFRESH_THRESHOLD_SECONDS_def)
  from refresh_always_calls [of "\<lambda>w. (Inr ''fresh'', w)" "\<lparr>env = ?w, auth_calls = 0\<rparr>", THEN conjunct1]
  have "refresh (\<lambda>w. (Inr ''fresh'', w)) \<lparr>env = ?w, auth_calls = 0\<rparr>
          = (Inr (JStr ''fresh''), \<lparr>env = ?w, auth_calls = 1\<rparr>)"
    by (simp add: get_api_key_def)
  with u show ?thesis by (intro conjI)
qed

section \<open>Properties of the singleton accessor\<close>






section \<open>A usable record without a token\<close>



section \<open>Properties of the search tool\<close>

lemma format_items_length:
  "format_items rt i xs = Inr gs \<Longrightarrow> length gs = length xs"
  by (induction xs arbitrary: i gs) (auto split: sum.splits)

lemma clamp_count_absent:
  "map_of arguments ''count'' = None \<Longrightarrow> clamp_count arguments = Inr (JInt 5)"
  by (simp add: clamp_count_def dict_get_def py_max_def py_min_def)

lemma clamp_count_int:
  "map_of arguments ''count'' = Some (JInt c) \<Longrightarrow>
     clamp_count arguments = Inr (JInt (min (max c 1) 10))"
  by (simp add: clamp_count_def dict_get_def py_max_def py_min_def)

lemma call_tool_try_results:
  assumes "http_get rt query = Response data"
    and "py_get data ''results'' (JArr []) = Inr (JArr found)"
    and "found \<noteq> []" and "1 \<le> k"
    and "format_items rt 1 (take (nat k) found) = Inr groups"
  shows "call_tool_try rt query (JInt k)
           = Inr [TextContent ''text''
                   (join_lines ((''Results for: '' @ py_str rt query @ [CHR 0x0A]) # concat groups))]"
proof -
  from assms(3,4) have "take (nat k) found \<noteq> []"
    by (cases found) (auto simp: take_Cons')
  with assms show ?thesis
    by (simp add: call_tool_try_def)
qed

lemma call_tool_returns:
  "clamp_count arguments = Inr count \<Longrightarrow> \<exists>r. call_tool rt name arguments = Inr r"
  by (simp add: call_tool_def split: sum.splits)

theorem call_tool_count_counterexample:
  "call_tool sample_runtime ''web_search'' [(''count'', JStr ''ten'')] = Inl TypeError
   \<and> call_tool sample_runtime ''web_search'' [(''query'', JStr ''''), (''count'', JNull)]
       = Inl TypeError
   \<and> call_tool sample_runtime ''web_search'' [(''query'', JStr ''cats''), (''count'', JStr ''3'')]
       = Inl TypeError"
  by (simp add: call_tool_def clamp_count_def dict_get_def py_max_def)

text \<open>
  Claim C10, as the code has it. For a \<^verbatim>\<open>web_search\<close> call whose \<^verbatim>\<open>count\<close> is absent or an
  integer, \<^verbatim>\<open>count\<close> becomes 5 when absent and otherwise the integer clamped to the range
  1 to 10; the call never raises; with an empty or missing query the answer is the text
  \<^verbatim>\<open>Error: query is required\<close>; and with a non-empty query, when the service returns a
  non-empty list of results that all format, the answer has one group of lines for each
  of the first \<^verbatim>\<open>count\<close> results, so at most \<^verbatim>\<open>count\<close> and at most 10 of them.
\<close>

theorem call_tool_count_clamped:
  assumes "map_of arguments ''count'' = None \<or> map_of arguments ''count'' = Some (JInt c)"
  shows "clamp_count arguments
           = Inr (JInt (if map_of arguments ''count'' = None then 5 else min (max c 1) 10))
         \<and> 1 \<le> (if map_of arguments ''count'' = None then 5 else min (max c 1) 10)
         \<and> (if map_of arguments ''count'' = None then 5 else min (max c 1) 10) \<le> 10
         \<and> (\<exists>r. call_tool rt ''web_search'' arguments = Inr r)
         \<and> (\<not> truthy (dict_get arguments ''query'' (JStr ''''))
              \<longrightarrow> call_tool rt ''web_search'' arguments
                    = Inr [TextContent ''text'' ''Error: query is required''])
         \<and> (truthy (dict_get arguments ''query'' (JStr ''''))
              \<and> http_get rt (dict_get arguments ''query'' (JStr '''')) = Response data
              \<and> py_get data ''results'' (JArr []) = Inr (JArr found)
              \<and> found \<noteq> []
              \<and> format_items rt 1
                   (take (nat (if map_of arguments ''count'' = None then 5 else min (max c 1) 10)) found)
                 = Inr groups
              \<longrightarrow> call_tool rt ''web_search'' arguments
                    = Inr [TextContent ''text''
                            (join_lines
                               ((''Results for: '' @ py_str rt (dict_get arguments ''query'' (JStr ''''))
                                   @ [CHR 0x0A])
                                # concat groups))]
                  \<and> length groups
                      = min (nat (if map_of arguments ''count'' = None then 5 else min (max c 1) 10))
                            (length found)
                  \<and> length groups \<le> 10)"
proof -
  let ?k = "if map_of arguments ''count'' = None then 5 else min (max c 1) 10"
  let ?q = "dict_get arguments ''query'' (JStr '''')"
  have clamp: "clamp_count arguments = Inr (JInt ?k)"
    using assms by (auto simp: clamp_count_absent clamp_count_int)
  have lo: "1 \<le> ?k" and hi: "?k \<le> 10"
    by simp_all
  have ret: "\<exists>r. call_tool rt ''web_search'' arguments = Inr r"
    using clamp by (rule call_tool_returns)
  have empty: "call_tool rt ''web_search'' arguments
                 = Inr [TextContent ''text'' ''Error: query is required'']"
    if "\<not> truthy ?q"
    using that clamp by (simp add: call_tool_def)
  have full: "call_tool rt ''web_search'' arguments
                = Inr [TextContent ''text''
                        (join_lines ((''Results for: '' @ py_str rt ?q @ [CHR 0x0A]) # concat groups))]
              \<and> length groups = min (nat ?k) (length found)
              \<and> length groups \<le> 10"
    if h: "truthy ?q \<and> http_get rt ?q = Response data
           \<and> py_get data ''results'' (JArr []) = Inr (JArr found)
           \<and> found \<noteq> []
           \<and> format_items rt 1 (take (nat ?k) found) = Inr groups"
  proof -
    from h have t: "truthy ?q" and g: "http_get rt ?q = Response data"
      and f: "py_get data ''results'' (JArr []) = Inr (JArr found)" and ne: "found \<noteq> []"
      and fm: "format_items rt 1 (take (nat ?k) found) = Inr groups"
      by blast+
    have body: "call_tool_try rt ?q (JInt ?k)
        = Inr [TextContent ''text''
                (join_lines ((''Results for: '' @ py_str rt ?q @ [CHR 0x0A]) # concat groups))]"
      by (rule call_tool_try_results [OF g f ne lo fm])
    have res: "call_tool rt ''web_search'' arguments
        = Inr [TextContent ''text''
                (join_lines ((''Results for: '' @ py_str rt ?q @ [CHR 0x0A]) # concat groups))]"
      using t clamp body by (simp add: call_tool_def del: join_lines.simps)
    have len: "length groups = min (nat ?k) (length found)"
      using format_items_length [OF fm] by (simp add: min.commute)
    from hi have nk: "nat ?k \<le> 10" by simp
    have "length groups \<le> nat ?k"
      unfolding len by (rule min.cobounded1)
    from this nk have "length groups \<le> 10" by (rule order_trans)
    with res len show ?thesis by blast
  qed
  from clamp lo hi ret empty full show ?thesis
    by blast
qed

theorem call_tool_count_clamped_witness:
  "clamp_count [(''query'', JStr ''cats''), (''count'', JInt 50)] = Inr (JInt 10)
   \<and> clamp_count [(''query'', JStr ''cats'')] = Inr (JInt 5)
   \<and> call_tool sample_runtime ''web_search'' [(''count'', JInt 0)]
       = Inr [TextContent ''text'' ''Error: query is required'']
   \<and> call_tool sample_runtime ''web_search'' [(''query'', JStr ''cats''), (''count'', JInt 2)]
       = Inr [TextContent ''text''
               (join_lines [''Results for: cats'' @ [CHR 0x0A],
                            ''1. A'', ''   http://a'', '''',
                            ''2. B'', ''   '', ''   about b'', ''''])]"
proof -
  let ?found = "[JObj [(''title'', JStr ''A''), (''url'', JStr ''http://a'')],
                 JObj [(''title'', JStr ''B''), (''content'', JStr ''about b'')],
                 JObj [(''url'', JStr ''http://c'')]]"
  let ?data = "JObj [(''results'', JArr ?found)]"
  let ?groups = "[[''1. A'', ''   http://a'', ''''], [''2. B'', ''   '', ''   about b'', '''']]"
  let ?args = "[(''query'', JStr ''cats''), (''count'', JInt 2)]"
  have a: "clamp_count [(''query'', JStr ''cats''), (''count'', JInt 50)] = Inr (JInt 10)"
    using call_tool_count_clamped [of "[(''query'', JStr ''cats''), (''count'', JInt 50)]" 50,
        THEN conjunct1]
    by simp
  have b: "clamp_count [(''query'', JStr ''cats'')] = Inr (JInt 5)"
    using call_tool_count_clamped [of "[(''query'', JStr ''cats'')]", THEN conjunct1]
    by simp
  have c: "call_tool sample_runtime ''web_search'' [(''count'', JInt 0)]
       = Inr [TextContent ''text'' ''Error: query is required'']"
    using call_tool_count_clamped [of "[(''count'', JInt 0)]" 0 sample_runtime,
        THEN conjunct2, THEN conjunct2, THEN conjunct2, THEN conjunct2, THEN conjunct1]
    by (simp add: dict_get_def)
  have h0: "map_of ?args ''count'' = None \<or> map_of ?args ''count'' = Some (JInt 2)"
    by simp
  have k: "(if map_of ?args ''count'' = None then 5 else min (max 2 1) 10) = (2 :: int)"
    by simp
  have q: "dict_get ?args ''query'' (JStr '''') = JStr ''cats''"
    by (simp add: dict_get_def)
  have h1: "truthy (dict_get ?args ''query'' (JStr ''''))"
    unfolding q by simp
  have h2: "http_get sample_runtime (dict_get ?args ''query'' (JStr '''')) = Response ?data"
    by (simp add: sample_runtime_def)
  have h3: "py_get ?data ''results'' (JArr []) = Inr (JArr ?found)"
    by simp
  have h4: "?found \<noteq> []"
    by simp
  have "format_items sample_runtime 1 (take (nat 2) ?found) = Inr ?groups"
    by code_simp
  then have h5: "format_items sample_runtime 1
      (take (nat (if map_of ?args ''count'' = None then 5 else min (max 2 1) 10)) ?found)
      = Inr ?groups"
    unfolding k .
  from call_tool_count_clamped [OF h0, of sample_runtime ?data ?found ?groups,
      THEN conjunct2, THEN conjunct2, THEN conjunct2, THEN conjunct2, THEN conjunct2,
      THEN mp, THEN conjunct1, OF conjI [OF h1 conjI [OF h2 conjI [OF h3 conjI [OF h4 h5]]]]]
  have d: "call_tool sample_runtime ''web_search'' ?args
       = Inr [TextContent ''text''
               (join_lines [''Results for: cats'' @ [CHR 0x0A],
                            ''1. A'', ''   http://a'', '''',
                            ''2. B'', ''   '', ''   about b'', ''''])]"
    unfolding q by (simp add: py_str_def del: join_lines.simps)
  from a b c d show ?thesis by (intro conjI)
qed

end
